theory Spec2Isabelle
  imports Main "HOL-Library.Word" "HOL-Library.AList" "HOL-Library.Sublist"
begin

section \<open>JavaScript strings\<close>

text \<open>
  A JavaScript string is a sequence of UTF-16 code units; \<open>s.length\<close> counts code units.
  String literals of the source are written \<open>js ''...''\<close>: the ASCII characters of the
  literal, one code unit each.
\<close>

type_synonym jschar = "16 word"
type_synonym jsstring = "jschar list"

definition js :: "string \<Rightarrow> jsstring" where
  "js s = map (\<lambda>c. of_nat (of_char c)) s"

text \<open>\<open>String.prototype.startsWith(p)\<close>: the string begins with the code units of \<open>p\<close>.\<close>

fun startsWith :: "jsstring \<Rightarrow> jsstring \<Rightarrow> bool" where
  "startsWith s [] = True"
| "startsWith [] (p # ps) = False"
| "startsWith (c # cs) (p # ps) = (c = p \<and> startsWith cs ps)"

text \<open>
  \<open>String.prototype.includes(p)\<close>: \<open>p\<close> occurs at some position of the string
  (\<open>includes\<close> is a reserved word of Isabelle, hence the prefix).
\<close>

fun str_includes :: "jsstring \<Rightarrow> jsstring \<Rightarrow> bool" where
  "str_includes [] p = startsWith [] p"
| "str_includes (c # cs) p = (startsWith (c # cs) p \<or> str_includes cs p)"

section \<open>The filename validator\<close>

text \<open>
  \<open>isValidFilename\<close> has the same body in \<open>FileManager\<close>, \<open>FileManagerCallback\<close>,
  \<open>FileManagerPromise\<close> and \<open>FileManagerAsync\<close>:
  \<^verbatim>\<open>
    const validFilenameRegex = /^[a-zA-Z0-9-_\.]+$/;
    return validFilenameRegex.test(filename) &&
           filename.length > 0 && filename.length <= 255 &&
           !filename.includes('..') && !filename.startsWith('.') &&
           !filename.includes('/') && !filename.includes('\\');
  \<close>
  The character class holds the ranges a-z, A-Z, 0-9 and the three literals
  \<open>-\<close>, \<open>_\<close> and \<open>.\<close>; the regular expression has no flag, so \<open>^\<close> and \<open>$\<close> are the
  two ends of the string and \<open>+\<close> asks for at least one code unit.
\<close>

definition in_class :: "jschar \<Rightarrow> bool" where
  "in_class c \<longleftrightarrow>
     (0x61 \<le> c \<and> c \<le> 0x7A) \<or> (0x41 \<le> c \<and> c \<le> 0x5A) \<or> (0x30 \<le> c \<and> c \<le> 0x39) \<or>
     c = 0x2D \<or> c = 0x5F \<or> c = 0x2E"

definition validFilenameRegex_test :: "jsstring \<Rightarrow> bool" where
  "validFilenameRegex_test s \<longleftrightarrow> s \<noteq> [] \<and> list_all in_class s"

definition isValidFilename :: "jsstring \<Rightarrow> bool" where
  "isValidFilename filename \<longleftrightarrow>
     validFilenameRegex_test filename \<and>
     length filename > 0 \<and>
     length filename \<le> 255 \<and>
     \<not> str_includes filename (js ''..'') \<and>
     \<not> startsWith filename (js ''.'') \<and>
     \<not> str_includes filename (js ''/'') \<and>
     \<not> str_includes filename (js [CHR 0x5C])"

text \<open>
  The validator as the specification words it: the alphabet is listed character by
  character, "contains" is the existence of a split of the string, "starts with" is a
  prefix.
\<close>

definition spec_alphabet :: "jschar set" where
  "spec_alphabet =
     set (js ''ABCDEFGHIJKLMNOPQRSTUVWXYZabcdefghijklmnopqrstuvwxyz0123456789-_.'')"

definition spec_contains :: "jsstring \<Rightarrow> jsstring \<Rightarrow> bool" where
  "spec_contains s p \<longleftrightarrow> (\<exists>u v. s = u @ p @ v)"

definition spec_isValid :: "jsstring \<Rightarrow> bool" where
  "spec_isValid s \<longleftrightarrow>
     s \<noteq> [] \<and> length s \<le> 255 \<and> set s \<subseteq> spec_alphabet \<and>
     \<not> spec_contains s (js ''..'') \<and>
     \<not> (\<exists>v. s = js ''.'' @ v) \<and>
     \<not> spec_contains s (js ''/'') \<and>
     \<not> spec_contains s (js [CHR 0x5C])"

section \<open>UTF-8: what \<open>fs.writeFile(..., 'utf8')\<close> stores and \<open>fs.readFile(..., 'utf8')\<close> returns\<close>

text \<open>
  Node encodes a string to UTF-8 by reading it as UTF-16: a high surrogate followed by a
  low surrogate is one supplementary code point, every other surrogate code unit is
  replaced by U+FFFD.
\<close>

type_synonym bytes = "8 word list"

definition is_high_surrogate :: "jschar \<Rightarrow> bool" where
  "is_high_surrogate c \<longleftrightarrow> 0xD800 \<le> c \<and> c \<le> 0xDBFF"

definition is_low_surrogate :: "jschar \<Rightarrow> bool" where
  "is_low_surrogate c \<longleftrightarrow> 0xDC00 \<le> c \<and> c \<le> 0xDFFF"

definition lone_unit :: "jschar \<Rightarrow> nat" where
  "lone_unit c = (if is_high_surrogate c \<or> is_low_surrogate c then 0xFFFD else unat c)"

fun code_points :: "jsstring \<Rightarrow> nat list" where
  "code_points [] = []"
| "code_points [c] = [lone_unit c]"
| "code_points (c # d # r) =
     (if is_high_surrogate c \<and> is_low_surrogate d
      then (0x10000 + (unat c - 0xD800) * 0x400 + (unat d - 0xDC00)) # code_points r
      else lone_unit c # code_points (d # r))"

definition utf8_bytes_of :: "nat \<Rightarrow> nat list" where
  "utf8_bytes_of cp =
     (if cp < 0x80 then [cp]
      else if cp < 0x800 then [0xC0 + cp div 0x40, 0x80 + cp mod 0x40]
      else if cp < 0x10000 then
        [0xE0 + cp div 0x1000, 0x80 + cp div 0x40 mod 0x40, 0x80 + cp mod 0x40]
      else
        [0xF0 + cp div 0x40000, 0x80 + cp div 0x1000 mod 0x40,
         0x80 + cp div 0x40 mod 0x40, 0x80 + cp mod 0x40])"

definition utf8_encode :: "jsstring \<Rightarrow> bytes" where
  "utf8_encode s = map of_nat (concat (map utf8_bytes_of (code_points s)))"

text \<open>
  Decoding follows the UTF-8 decoder of the WHATWG Encoding standard, byte by byte: a
  lead byte fixes how many continuation bytes are needed and the range allowed for the
  next one; a byte outside that range emits U+FFFD and is read again as a lead byte; a
  sequence cut off by the end of the input emits U+FFFD. The shifts and masks of the
  standard are written as arithmetic: \<open>b & 0x1F\<close> is \<open>b mod 32\<close>, and
  \<open>(cp << 6) | (b & 0x3F)\<close> is \<open>cp * 64 + b mod 64\<close>. A byte order mark is kept.
\<close>

record utf8_decoder =
  code_point :: nat
  bytes_seen :: nat
  bytes_needed :: nat
  lower_boundary :: nat
  upper_boundary :: nat

definition decoder_init :: utf8_decoder where
  "decoder_init =
     \<lparr>code_point = 0, bytes_seen = 0, bytes_needed = 0,
      lower_boundary = 0x80, upper_boundary = 0xBF\<rparr>"

definition lead_byte :: "nat \<Rightarrow> nat list \<Rightarrow> utf8_decoder \<times> nat list" where
  "lead_byte b out =
     (if b \<le> 0x7F then (decoder_init, out @ [b])
      else if 0xC2 \<le> b \<and> b \<le> 0xDF then
        (decoder_init\<lparr>bytes_needed := 1, code_point := b mod 0x20\<rparr>, out)
      else if 0xE0 \<le> b \<and> b \<le> 0xEF then
        (decoder_init\<lparr>lower_boundary := (if b = 0xE0 then 0xA0 else 0x80),
                      upper_boundary := (if b = 0xED then 0x9F else 0xBF),
                      bytes_needed := 2, code_point := b mod 0x10\<rparr>, out)
      else if 0xF0 \<le> b \<and> b \<le> 0xF4 then
        (decoder_init\<lparr>lower_boundary := (if b = 0xF0 then 0x90 else 0x80),
                      upper_boundary := (if b = 0xF4 then 0x8F else 0xBF),
                      bytes_needed := 3, code_point := b mod 0x08\<rparr>, out)
      else (decoder_init, out @ [0xFFFD]))"

definition utf8_step :: "nat \<Rightarrow> utf8_decoder \<times> nat list \<Rightarrow> utf8_decoder \<times> nat list" where
  "utf8_step b st =
     (let d = fst st; out = snd st in
      if bytes_needed d = 0 then lead_byte b out
      else if b < lower_boundary d \<or> upper_boundary d < b then lead_byte b (out @ [0xFFFD])
      else
        let d' = d\<lparr>lower_boundary := 0x80, upper_boundary := 0xBF,
                   code_point := code_point d * 0x40 + b mod 0x40,
                   bytes_seen := bytes_seen d + 1\<rparr>
        in if bytes_seen d' \<noteq> bytes_needed d' then (d', out)
           else (decoder_init, out @ [code_point d']))"

definition utf8_finish :: "utf8_decoder \<times> nat list \<Rightarrow> nat list" where
  "utf8_finish st = (if bytes_needed (fst st) \<noteq> 0 then snd st @ [0xFFFD] else snd st)"

definition utf8_code_points :: "nat list \<Rightarrow> nat list" where
  "utf8_code_points bs = utf8_finish (fold utf8_step bs (decoder_init, []))"

text \<open>A decoded code point becomes one code unit, or a surrogate pair above U+FFFF.\<close>

definition code_units_of :: "nat \<Rightarrow> jsstring" where
  "code_units_of cp =
     (if cp < 0x10000 then [of_nat cp]
      else [of_nat (0xD800 + (cp - 0x10000) div 0x400),
            of_nat (0xDC00 + (cp - 0x10000) mod 0x400)])"

definition utf8_decode :: "bytes \<Rightarrow> jsstring" where
  "utf8_decode bs = concat (map code_units_of (utf8_code_points (map unat bs)))"

text \<open>
  \<open>String.prototype.isWellFormed\<close>: every high surrogate is followed by a low one and
  no low surrogate stands alone.
\<close>

fun isWellFormed :: "jsstring \<Rightarrow> bool" where
  "isWellFormed [] = True"
| "isWellFormed [c] = (\<not> is_high_surrogate c \<and> \<not> is_low_surrogate c)"
| "isWellFormed (c # d # r) =
     (if is_high_surrogate c then is_low_surrogate d \<and> isWellFormed r
      else \<not> is_low_surrogate c \<and> isWellFormed (d # r))"

text \<open>A Unicode scalar value: a code point that is not a surrogate.\<close>

definition scalar :: "nat \<Rightarrow> bool" where
  "scalar cp \<longleftrightarrow> cp < 0xD800 \<or> (0xE000 \<le> cp \<and> cp \<le> 0x10FFFF)"

section \<open>The file system, as the module sees it\<close>

text \<open>
  The module works on the direct children of one base directory, which is taken to
  exist (\<open>initializeDirectory\<close> has succeeded). The state of the file system is the
  list of the entries of that directory, in the order \<open>readdir\<close> enumerates them, looked
  up by entry name. For a name that passes the validator, \<open>path.join(baseDir, filename)\<close>
  is the entry of that name. An entry is a regular file (its bytes, birth time,
  modification time) or a subdirectory (its metadata). A new entry is enumerated last.
  A call fails where the state makes it fail, with the error Linux gives: ENOENT on a
  name that has no entry, EISDIR on reading, overwriting or unlinking a subdirectory.
  Failures that come from outside this state (permissions, a full disk, I/O errors) are
  not modelled.
\<close>

datatype errno = ENOENT | EISDIR

record stats =
  st_size :: nat
  birthtime :: nat
  mtime :: nat

datatype node = RegularFile bytes nat nat | Directory stats

type_synonym directory = "(jsstring \<times> node) list"

definition fs_access :: "directory \<Rightarrow> jsstring \<Rightarrow> errno + unit" where
  "fs_access fs name = (case map_of fs name of None \<Rightarrow> Inl ENOENT | Some _ \<Rightarrow> Inr ())"

definition fs_writeFile :: "directory \<Rightarrow> nat \<Rightarrow> jsstring \<Rightarrow> jsstring \<Rightarrow> errno + directory" where
  "fs_writeFile fs now name content =
     (case map_of fs name of
        None \<Rightarrow> Inr (AList.update name (RegularFile (utf8_encode content) now now) fs)
      | Some (RegularFile old born modified) \<Rightarrow>
          Inr (AList.update name (RegularFile (utf8_encode content) born now) fs)
      | Some (Directory st) \<Rightarrow> Inl EISDIR)"

definition fs_readFile :: "directory \<Rightarrow> jsstring \<Rightarrow> errno + jsstring" where
  "fs_readFile fs name =
     (case map_of fs name of
        None \<Rightarrow> Inl ENOENT
      | Some (RegularFile data born modified) \<Rightarrow> Inr (utf8_decode data)
      | Some (Directory st) \<Rightarrow> Inl EISDIR)"

definition fs_stat :: "directory \<Rightarrow> jsstring \<Rightarrow> errno + stats" where
  "fs_stat fs name =
     (case map_of fs name of
        None \<Rightarrow> Inl ENOENT
      | Some (RegularFile data born modified) \<Rightarrow>
          Inr \<lparr>st_size = length data, birthtime = born, mtime = modified\<rparr>
      | Some (Directory st) \<Rightarrow> Inr st)"

definition fs_unlink :: "directory \<Rightarrow> jsstring \<Rightarrow> errno + directory" where
  "fs_unlink fs name =
     (case map_of fs name of
        None \<Rightarrow> Inl ENOENT
      | Some (RegularFile data born modified) \<Rightarrow> Inr (AList.delete name fs)
      | Some (Directory st) \<Rightarrow> Inl EISDIR)"

definition fs_readdir :: "directory \<Rightarrow> errno + jsstring list" where
  "fs_readdir fs = Inr (map fst fs)"

text \<open>The file-system calls an operation makes, in the order it issues them.\<close>

datatype fs_call =
  Access jsstring | WriteFile jsstring | ReadFile jsstring | Stat jsstring | Unlink jsstring
| Readdir jsstring

definition path_join :: "jsstring \<Rightarrow> jsstring \<Rightarrow> jsstring" where
  "path_join baseDir name = baseDir @ js ''/'' @ name"

section \<open>Errors and results\<close>

text \<open>
  An error is a plain \<open>new Error(message)\<close>, which has no \<open>code\<close>, or the error of a
  failed file-system call, whose \<open>code\<close> is the errno name and whose message starts
  with it.
\<close>

datatype js_error = Error string | SystemError errno

fun code :: "js_error \<Rightarrow> errno option" where
  "code (Error m) = None"
| "code (SystemError e) = Some e"

fun message :: "js_error \<Rightarrow> string" where
  "message (Error m) = m"
| "message (SystemError ENOENT) = ''ENOENT: no such file or directory''"
| "message (SystemError EISDIR) = ''EISDIR: illegal operation on a directory''"

abbreviation InvalidName :: js_error where "InvalidName \<equiv> Error ''Invalid filename''"
abbreviation AlreadyExists :: js_error where "AlreadyExists \<equiv> Error ''File already exists''"
abbreviation NotFound :: js_error where "NotFound \<equiv> Error ''File not found''"

text \<open>
  The result objects. The source names the fields \<open>filename\<close>, \<open>path\<close>, \<open>size\<close>,
  \<open>created\<close>, \<open>content\<close>, \<open>modified\<close>, \<open>deleted\<close>, \<open>timestamp\<close>; here each
  carries the initial of its operation. Times are clock readings.
\<close>

record create_result =
  c_filename :: jsstring
  c_path :: jsstring
  c_size :: nat
  c_created :: nat

record read_result =
  r_filename :: jsstring
  r_content :: jsstring
  r_size :: nat
  r_created :: nat
  r_modified :: nat

record delete_result =
  d_filename :: jsstring
  d_deleted :: bool
  d_timestamp :: nat

record list_entry =
  l_filename :: jsstring
  l_size :: nat
  l_created :: nat
  l_modified :: nat

section \<open>FileManager (async/await, the module the server uses)\<close>

text \<open>
  Each operation takes the base directory and the state of the file system, and returns
  its outcome (\<open>Inl\<close> the error thrown, \<open>Inr\<close> the value returned), the new state where
  it writes, and the file-system calls it made. \<open>now\<close> is the clock reading of
  \<open>new Date()\<close> and of the write. The logger has no effect on the outcome and is left out.
  \<open>createFile\<close> and \<open>deleteFile\<close> are run without interference between their probe and
  their write; \<open>readFile\<close> and \<open>listFiles\<close> take two states, the one the first call sees
  and the one the later \<open>stat\<close> calls see, which are the same when nothing else touches
  the directory in between.
\<close>

definition createFile ::
  "jsstring \<Rightarrow> directory \<Rightarrow> nat \<Rightarrow> jsstring \<Rightarrow> jsstring \<Rightarrow>
   (js_error + create_result) \<times> directory \<times> fs_call list" where
  "createFile baseDir fs now filename content =
     (if \<not> isValidFilename filename then (Inl (Error ''Invalid filename''), fs, [])
      else
        let filePath = path_join baseDir filename;
            error = (case fs_access fs filename of
                       Inr ok \<Rightarrow> Error ''File already exists''
                     | Inl e \<Rightarrow> SystemError e)
        in if code error \<noteq> Some ENOENT then (Inl error, fs, [Access filePath])
           else
             (case fs_writeFile fs now filename content of
                Inl e \<Rightarrow> (Inl (SystemError e), fs, [Access filePath, WriteFile filePath])
              | Inr fs' \<Rightarrow>
                  (Inr \<lparr>c_filename = filename, c_path = filePath,
                        c_size = length content, c_created = now\<rparr>,
                   fs', [Access filePath, WriteFile filePath])))"

definition readFile ::
  "jsstring \<Rightarrow> directory \<Rightarrow> directory \<Rightarrow> jsstring \<Rightarrow> (js_error + read_result) \<times> fs_call list" where
  "readFile baseDir fs fs' filename =
     (let filePath = path_join baseDir filename;
          attempt =
            (if \<not> isValidFilename filename then (Inl (Error ''Invalid filename''), [])
             else
               (case fs_readFile fs filename of
                  Inl e \<Rightarrow> (Inl (SystemError e), [ReadFile filePath])
                | Inr content \<Rightarrow>
                    (case fs_stat fs' filename of
                       Inl e \<Rightarrow> (Inl (SystemError e), [ReadFile filePath, Stat filePath])
                     | Inr st \<Rightarrow>
                         (Inr \<lparr>r_filename = filename, r_content = content, r_size = st_size st,
                               r_created = birthtime st, r_modified = mtime st\<rparr>,
                          [ReadFile filePath, Stat filePath]))))
      in case fst attempt of
           Inl error \<Rightarrow>
             (if code error = Some ENOENT then Inl (Error ''File not found'') else Inl error,
              snd attempt)
         | Inr result \<Rightarrow> (Inr result, snd attempt))"

definition deleteFile ::
  "jsstring \<Rightarrow> directory \<Rightarrow> nat \<Rightarrow> jsstring \<Rightarrow>
   (js_error + delete_result) \<times> directory \<times> fs_call list" where
  "deleteFile baseDir fs now filename =
     (if \<not> isValidFilename filename then (Inl (Error ''Invalid filename''), fs, [])
      else
        let filePath = path_join baseDir filename in
        case fs_access fs filename of
          Inl e \<Rightarrow>
            (if code (SystemError e) = Some ENOENT then Inl (Error ''File not found'')
             else Inl (SystemError e),
             fs, [Access filePath])
        | Inr ok \<Rightarrow>
            (case fs_unlink fs filename of
               Inl e \<Rightarrow> (Inl (SystemError e), fs, [Access filePath, Unlink filePath])
             | Inr fs' \<Rightarrow>
                 (Inr \<lparr>d_filename = filename, d_deleted = True, d_timestamp = now\<rparr>,
                  fs', [Access filePath, Unlink filePath])))"

text \<open>
  \<open>createFile\<close> called again and again on one name, each attempt with its own clock
  reading and content: the outcomes in order, and the state after the last attempt.
\<close>

fun create_repeated ::
  "jsstring \<Rightarrow> directory \<Rightarrow> jsstring \<Rightarrow> (nat \<times> jsstring) list \<Rightarrow>
   (js_error + create_result) list \<times> directory" where
  "create_repeated baseDir fs filename [] = ([], fs)"
| "create_repeated baseDir fs filename ((now, content) # attempts) =
     (let first = createFile baseDir fs now filename content;
          rest = create_repeated baseDir (fst (snd first)) filename attempts
      in (fst first # fst rest, snd rest))"

text \<open>
  \<open>listFiles\<close> starts one \<open>stat\<close> per entry before any of them has finished. \<open>sched\<close>
  gives the order in which they finish, as indices into the \<open>readdir\<close> result; indices
  out of range and repetitions are dropped, and a \<open>stat\<close> that \<open>sched\<close> leaves out
  finishes after the others, so that every \<open>stat\<close> finishes exactly once.
\<close>

definition completion_order :: "nat \<Rightarrow> nat list \<Rightarrow> nat list" where
  "completion_order n sched =
     remdups (filter (\<lambda>i. i < n) sched) @ filter (\<lambda>i. i \<notin> set sched) [0..<n]"

fun rejections :: "('e + 'a) list \<Rightarrow> 'e list" where
  "rejections [] = []"
| "rejections (Inl e # rs) = e # rejections rs"
| "rejections (Inr v # rs) = rejections rs"

fun fulfilled :: "('e + 'a) list \<Rightarrow> 'a list" where
  "fulfilled [] = []"
| "fulfilled (Inl e # rs) = fulfilled rs"
| "fulfilled (Inr v # rs) = v # fulfilled rs"

text \<open>
  \<open>Promise.all\<close>: rejected with the reason of the promise that is rejected first in
  time; fulfilled with the values in the order of the promises when none is rejected.
\<close>

definition promise_all :: "('e + 'a) list \<Rightarrow> nat list \<Rightarrow> 'e + 'a list" where
  "promise_all promises sched =
     (case rejections (map (\<lambda>i. promises ! i) (completion_order (length promises) sched)) of
        e # es \<Rightarrow> Inl e
      | [] \<Rightarrow> Inr (fulfilled promises))"

definition stat_entry :: "directory \<Rightarrow> jsstring \<Rightarrow> js_error + list_entry" where
  "stat_entry fs filename =
     (case fs_stat fs filename of
        Inl e \<Rightarrow> Inl (SystemError e)
      | Inr st \<Rightarrow>
          Inr \<lparr>l_filename = filename, l_size = st_size st,
                l_created = birthtime st, l_modified = mtime st\<rparr>)"

definition listFiles ::
  "jsstring \<Rightarrow> directory \<Rightarrow> directory \<Rightarrow> nat list \<Rightarrow> (js_error + list_entry list) \<times> fs_call list" where
  "listFiles baseDir fs fs' sched =
     (case fs_readdir fs of
        Inl e \<Rightarrow> (Inl (SystemError e), [Readdir baseDir])
      | Inr files \<Rightarrow>
          (promise_all (map (stat_entry fs') files) sched,
           Readdir baseDir # map (\<lambda>filename. Stat (path_join baseDir filename)) files))"

section \<open>FileManagerCallback\<close>

text \<open>
  A callback-style operation returns nothing; what it does is to call \<open>callback\<close>. Its
  outcome here is the list of the calls it makes, in order: \<open>Inl error\<close> for
  \<open>callback(error)\<close>, \<open>Inr result\<close> for \<open>callback(null, result)\<close>. An operation that
  never calls back has the outcome \<open>[]\<close>.
\<close>

definition Callback_createFile ::
  "jsstring \<Rightarrow> directory \<Rightarrow> nat \<Rightarrow> jsstring \<Rightarrow> jsstring \<Rightarrow>
   (js_error + create_result) list \<times> directory \<times> fs_call list" where
  "Callback_createFile baseDir fs now filename content =
     (if \<not> isValidFilename filename then ([Inl (Error ''Invalid filename'')], fs, [])
      else
        let filePath = path_join baseDir filename in
        case fs_access fs filename of
          Inr ok \<Rightarrow> ([Inl (Error ''File already exists'')], fs, [Access filePath])
        | Inl error \<Rightarrow>
            if code (SystemError error) \<noteq> Some ENOENT
            then ([Inl (SystemError error)], fs, [Access filePath])
            else
              (case fs_writeFile fs now filename content of
                 Inl error \<Rightarrow> ([Inl (SystemError error)], fs, [Access filePath, WriteFile filePath])
               | Inr fs' \<Rightarrow>
                   ([Inr \<lparr>c_filename = filename, c_path = filePath,
                          c_size = length content, c_created = now\<rparr>],
                    fs', [Access filePath, WriteFile filePath])))"

definition Callback_readFile ::
  "jsstring \<Rightarrow> directory \<Rightarrow> directory \<Rightarrow> jsstring \<Rightarrow> (js_error + read_result) list \<times> fs_call list" where
  "Callback_readFile baseDir fs fs' filename =
     (if \<not> isValidFilename filename then ([Inl (Error ''Invalid filename'')], [])
      else
        let filePath = path_join baseDir filename in
        case fs_readFile fs filename of
          Inl error \<Rightarrow>
            (if code (SystemError error) = Some ENOENT then [Inl (Error ''File not found'')]
             else [Inl (SystemError error)],
             [ReadFile filePath])
        | Inr content \<Rightarrow>
            (case fs_stat fs' filename of
               Inl error \<Rightarrow> ([Inl (SystemError error)], [ReadFile filePath, Stat filePath])
             | Inr st \<Rightarrow>
                 ([Inr \<lparr>r_filename = filename, r_content = content, r_size = st_size st,
                       r_created = birthtime st, r_modified = mtime st\<rparr>],
                  [ReadFile filePath, Stat filePath])))"

definition Callback_deleteFile ::
  "jsstring \<Rightarrow> directory \<Rightarrow> nat \<Rightarrow> jsstring \<Rightarrow>
   (js_error + delete_result) list \<times> directory \<times> fs_call list" where
  "Callback_deleteFile baseDir fs now filename =
     (if \<not> isValidFilename filename then ([Inl (Error ''Invalid filename'')], fs, [])
      else
        let filePath = path_join baseDir filename in
        case fs_access fs filename of
          Inl error \<Rightarrow>
            (if code (SystemError error) = Some ENOENT then [Inl (Error ''File not found'')]
             else [Inl (SystemError error)],
             fs, [Access filePath])
        | Inr ok \<Rightarrow>
            (case fs_unlink fs filename of
               Inl error \<Rightarrow> ([Inl (SystemError error)], fs, [Access filePath, Unlink filePath])
             | Inr fs' \<Rightarrow>
                 ([Inr \<lparr>d_filename = filename, d_deleted = True, d_timestamp = now\<rparr>],
                  fs', [Access filePath, Unlink filePath])))"

text \<open>
  The state the \<open>stat\<close> callbacks of \<open>listFiles\<close> share: the counter, the array they
  push to, the error flag, and the calls made to \<open>callback\<close> so far.
\<close>

record list_progress =
  completed :: nat
  fileDetails :: "list_entry list"
  hasError :: bool
  called :: "(js_error + list_entry list) list"

definition stat_callback ::
  "nat \<Rightarrow> jsstring \<Rightarrow> errno + stats \<Rightarrow> list_progress \<Rightarrow> list_progress" where
  "stat_callback files_length filename result p =
     (if hasError p then p
      else
        (case result of
           Inl error \<Rightarrow> p\<lparr>hasError := True, called := called p @ [Inl (SystemError error)]\<rparr>
         | Inr st \<Rightarrow>
             let p' = p\<lparr>fileDetails :=
                          fileDetails p @
                          [\<lparr>l_filename = filename, l_size = st_size st,
                            l_created = birthtime st, l_modified = mtime st\<rparr>],
                        completed := completed p + 1\<rparr>
             in if completed p' = files_length
                then p'\<lparr>called := called p' @ [Inr (fileDetails p')]\<rparr>
                else p'))"

definition Callback_listFiles ::
  "jsstring \<Rightarrow> directory \<Rightarrow> directory \<Rightarrow> nat list \<Rightarrow>
   (js_error + list_entry list) list \<times> fs_call list" where
  "Callback_listFiles baseDir fs fs' sched =
     (case fs_readdir fs of
        Inl error \<Rightarrow> ([Inl (SystemError error)], [Readdir baseDir])
      | Inr files \<Rightarrow>
          (called
             (fold (\<lambda>i. stat_callback (length files) (files ! i) (fs_stat fs' (files ! i)))
                (completion_order (length files) sched)
                \<lparr>completed = 0, fileDetails = [], hasError = False, called = []\<rparr>),
           Readdir baseDir # map (\<lambda>filename. Stat (path_join baseDir filename)) files))"

section \<open>FileManagerPromise\<close>

text \<open>
  Every path through the executor of a promise-style operation calls \<open>resolve\<close> or
  \<open>reject\<close> once; the outcome is \<open>Inr\<close> the value resolved with or \<open>Inl\<close> the reason
  of the rejection.
\<close>

definition Promise_createFile ::
  "jsstring \<Rightarrow> directory \<Rightarrow> nat \<Rightarrow> jsstring \<Rightarrow> jsstring \<Rightarrow>
   (js_error + create_result) \<times> directory \<times> fs_call list" where
  "Promise_createFile baseDir fs now filename content =
     (if \<not> isValidFilename filename then (Inl (Error ''Invalid filename''), fs, [])
      else
        let filePath = path_join baseDir filename in
        case fs_access fs filename of
          Inr ok \<Rightarrow> (Inl (Error ''File already exists''), fs, [Access filePath])
        | Inl error \<Rightarrow>
            if code (SystemError error) \<noteq> Some ENOENT
            then (Inl (SystemError error), fs, [Access filePath])
            else
              (case fs_writeFile fs now filename content of
                 Inl error \<Rightarrow> (Inl (SystemError error), fs, [Access filePath, WriteFile filePath])
               | Inr fs' \<Rightarrow>
                   (Inr \<lparr>c_filename = filename, c_path = filePath,
                          c_size = length content, c_created = now\<rparr>,
                    fs', [Access filePath, WriteFile filePath])))"

definition Promise_readFile ::
  "jsstring \<Rightarrow> directory \<Rightarrow> directory \<Rightarrow> jsstring \<Rightarrow> (js_error + read_result) \<times> fs_call list" where
  "Promise_readFile baseDir fs fs' filename =
     (if \<not> isValidFilename filename then (Inl (Error ''Invalid filename''), [])
      else
        let filePath = path_join baseDir filename in
        case fs_readFile fs filename of
          Inl error \<Rightarrow>
            (if code (SystemError error) = Some ENOENT then Inl (Error ''File not found'')
             else Inl (SystemError error),
             [ReadFile filePath])
        | Inr content \<Rightarrow>
            (case fs_stat fs' filename of
               Inl error \<Rightarrow> (Inl (SystemError error), [ReadFile filePath, Stat filePath])
             | Inr st \<Rightarrow>
                 (Inr \<lparr>r_filename = filename, r_content = content, r_size = st_size st,
                       r_created = birthtime st, r_modified = mtime st\<rparr>,
                  [ReadFile filePath, Stat filePath])))"

definition Promise_deleteFile ::
  "jsstring \<Rightarrow> directory \<Rightarrow> nat \<Rightarrow> jsstring \<Rightarrow>
   (js_error + delete_result) \<times> directory \<times> fs_call list" where
  "Promise_deleteFile baseDir fs now filename =
     (if \<not> isValidFilename filename then (Inl (Error ''Invalid filename''), fs, [])
      else
        let filePath = path_join baseDir filename in
        case fs_access fs filename of
          Inl error \<Rightarrow>
            (if code (SystemError error) = Some ENOENT then Inl (Error ''File not found'')
             else Inl (SystemError error),
             fs, [Access filePath])
        | Inr ok \<Rightarrow>
            (case fs_unlink fs filename of
               Inl error \<Rightarrow> (Inl (SystemError error), fs, [Access filePath, Unlink filePath])
             | Inr fs' \<Rightarrow>
                 (Inr \<lparr>d_filename = filename, d_deleted = True, d_timestamp = now\<rparr>,
                  fs', [Access filePath, Unlink filePath])))"

definition Promise_listFiles ::
  "jsstring \<Rightarrow> directory \<Rightarrow> directory \<Rightarrow> nat list \<Rightarrow> (js_error + list_entry list) \<times> fs_call list" where
  "Promise_listFiles baseDir fs fs' sched =
     (case fs_readdir fs of
        Inl error \<Rightarrow> (Inl (SystemError error), [Readdir baseDir])
      | Inr files \<Rightarrow>
          (promise_all (map (stat_entry fs') files) sched,
           Readdir baseDir # map (\<lambda>filename. Stat (path_join baseDir filename)) files))"

section \<open>FileManagerAsync\<close>

text \<open>The methods of this class have the text of the methods of \<open>FileManager\<close>.\<close>

definition Async_createFile ::
  "jsstring \<Rightarrow> directory \<Rightarrow> nat \<Rightarrow> jsstring \<Rightarrow> jsstring \<Rightarrow>
   (js_error + create_result) \<times> directory \<times> fs_call list" where
  "Async_createFile baseDir fs now filename content =
     (if \<not> isValidFilename filename then (Inl (Error ''Invalid filename''), fs, [])
      else
        let filePath = path_join baseDir filename;
            error = (case fs_access fs filename of
                       Inr ok \<Rightarrow> Error ''File already exists''
                     | Inl e \<Rightarrow> SystemError e)
        in if code error \<noteq> Some ENOENT then (Inl error, fs, [Access filePath])
           else
             (case fs_writeFile fs now filename content of
                Inl e \<Rightarrow> (Inl (SystemError e), fs, [Access filePath, WriteFile filePath])
              | Inr fs' \<Rightarrow>
                  (Inr \<lparr>c_filename = filename, c_path = filePath,
                        c_size = length content, c_created = now\<rparr>,
                   fs', [Access filePath, WriteFile filePath])))"

definition Async_readFile ::
  "jsstring \<Rightarrow> directory \<Rightarrow> directory \<Rightarrow> jsstring \<Rightarrow> (js_error + read_result) \<times> fs_call list" where
  "Async_readFile baseDir fs fs' filename =
     (let filePath = path_join baseDir filename;
          attempt =
            (if \<not> isValidFilename filename then (Inl (Error ''Invalid filename''), [])
             else
               (case fs_readFile fs filename of
                  Inl e \<Rightarrow> (Inl (SystemError e), [ReadFile filePath])
                | Inr content \<Rightarrow>
                    (case fs_stat fs' filename of
                       Inl e \<Rightarrow> (Inl (SystemError e), [ReadFile filePath, Stat filePath])
                     | Inr st \<Rightarrow>
                         (Inr \<lparr>r_filename = filename, r_content = content, r_size = st_size st,
                               r_created = birthtime st, r_modified = mtime st\<rparr>,
                          [ReadFile filePath, Stat filePath]))))
      in case fst attempt of
           Inl error \<Rightarrow>
             (if code error = Some ENOENT then Inl (Error ''File not found'') else Inl error,
              snd attempt)
         | Inr result \<Rightarrow> (Inr result, snd attempt))"

definition Async_deleteFile ::
  "jsstring \<Rightarrow> directory \<Rightarrow> nat \<Rightarrow> jsstring \<Rightarrow>
   (js_error + delete_result) \<times> directory \<times> fs_call list" where
  "Async_deleteFile baseDir fs now filename =
     (if \<not> isValidFilename filename then (Inl (Error ''Invalid filename''), fs, [])
      else
        let filePath = path_join baseDir filename in
        case fs_access fs filename of
          Inl e \<Rightarrow>
            (if code (SystemError e) = Some ENOENT then Inl (Error ''File not found'')
             else Inl (SystemError e),
             fs, [Access filePath])
        | Inr ok \<Rightarrow>
            (case fs_unlink fs filename of
               Inl e \<Rightarrow> (Inl (SystemError e), fs, [Access filePath, Unlink filePath])
             | Inr fs' \<Rightarrow>
                 (Inr \<lparr>d_filename = filename, d_deleted = True, d_timestamp = now\<rparr>,
                  fs', [Access filePath, Unlink filePath])))"

definition Async_listFiles ::
  "jsstring \<Rightarrow> directory \<Rightarrow> directory \<Rightarrow> nat list \<Rightarrow> (js_error + list_entry list) \<times> fs_call list" where
  "Async_listFiles baseDir fs fs' sched =
     (case fs_readdir fs of
        Inl e \<Rightarrow> (Inl (SystemError e), [Readdir baseDir])
      | Inr files \<Rightarrow>
          (promise_all (map (stat_entry fs') files) sched,
           Readdir baseDir # map (\<lambda>filename. Stat (path_join baseDir filename)) files))"

section \<open>The server\<close>

text \<open>
  The request handler of \<open>server.js\<close>, on a request whose body has been read. The
  body is either not JSON, or a JSON object whose \<open>filename\<close> and \<open>content\<close>, where
  present, are strings (\<open>None\<close> is an absent field); \<open>!body.filename || !body.content\<close>
  then holds when a field is absent or is the empty string. \<open>path.split('/').pop()\<close> is
  what follows the last \<open>/\<close>. The handler calls the \<open>FileManager\<close> with nothing else
  touching the directory.
\<close>

datatype request_body = InvalidJSON | JsonObject "jsstring option" "jsstring option"

record request =
  req_method :: jsstring
  req_path :: jsstring
  req_body :: request_body

datatype payload =
  ErrorBody string nat
| CreatedBody create_result
| FilesBody "list_entry list"
| FileBody read_result
| DeletedBody delete_result
| HealthBody

record response =
  statusCode :: nat
  res_data :: payload

definition handleError :: "js_error \<Rightarrow> response" where
  "handleError error =
     (let status =
            (if message error = ''File not found'' then 404
             else if message error = ''Invalid filename'' then 400
             else if message error = ''File already exists'' then 409
             else if message error = ''Invalid JSON'' then 400
             else 500)
      in \<lparr>statusCode = status,
          res_data = ErrorBody (if message error = [] then ''Internal Server Error''
                            else message error) status\<rparr>)"

definition pop_segment :: "jsstring \<Rightarrow> jsstring" where
  "pop_segment p = rev (takeWhile (\<lambda>c. c \<noteq> 0x2F) (rev p))"

definition server :: "jsstring \<Rightarrow> directory \<Rightarrow> nat \<Rightarrow> request \<Rightarrow> response \<times> directory" where
  "server baseDir fs now req =
     (let path = req_path req in
      if startsWith path (js ''/api/files'') then
        if req_method req = js ''POST'' \<and> path = js ''/api/files'' then
          (case req_body req of
             InvalidJSON \<Rightarrow> (handleError (Error ''Invalid JSON''), fs)
           | JsonObject filename content \<Rightarrow>
               (case (filename, content) of
                  (Some name, Some text) \<Rightarrow>
                    if name = [] \<or> text = []
                    then (handleError (Error ''Filename and content are required''), fs)
                    else
                      (case createFile baseDir fs now name text of
                         (Inl error, fs', calls) \<Rightarrow> (handleError error, fs')
                       | (Inr result, fs', calls) \<Rightarrow>
                           (\<lparr>statusCode = 201, res_data = CreatedBody result\<rparr>, fs'))
                | _ \<Rightarrow> (handleError (Error ''Filename and content are required''), fs)))
        else if req_method req = js ''GET'' \<and> path = js ''/api/files'' then
          (case listFiles baseDir fs fs [] of
             (Inl error, calls) \<Rightarrow> (handleError error, fs)
           | (Inr files, calls) \<Rightarrow> (\<lparr>statusCode = 200, res_data = FilesBody files\<rparr>, fs))
        else if req_method req = js ''GET'' \<and> startsWith path (js ''/api/files/'') then
          (case readFile baseDir fs fs (pop_segment path) of
             (Inl error, calls) \<Rightarrow> (handleError error, fs)
           | (Inr file, calls) \<Rightarrow> (\<lparr>statusCode = 200, res_data = FileBody file\<rparr>, fs))
        else if req_method req = js ''DELETE'' \<and> startsWith path (js ''/api/files/'') then
          (case deleteFile baseDir fs now (pop_segment path) of
             (Inl error, fs', calls) \<Rightarrow> (handleError error, fs')
           | (Inr result, fs', calls) \<Rightarrow> (\<lparr>statusCode = 200, res_data = DeletedBody result\<rparr>, fs'))
        else (handleError (Error ''Method not allowed''), fs)
      else if path = js ''/health'' then (\<lparr>statusCode = 200, res_data = HealthBody\<rparr>, fs)
      else (handleError (Error ''Not found''), fs))"

section \<open>The validator meets its specification\<close>

lemma startsWith_prefix: "startsWith s p \<longleftrightarrow> prefix p s"
  by (induction s p rule: startsWith.induct) auto

lemma str_includes_sublist: "str_includes s p \<longleftrightarrow> sublist p s"
  by (induction s) (auto simp: startsWith_prefix sublist_Cons_right)

lemma startsWith_iff: "startsWith s p \<longleftrightarrow> (\<exists>v. s = p @ v)"
  by (simp add: startsWith_prefix prefix_def)

lemma str_includes_iff: "str_includes s p \<longleftrightarrow> spec_contains s p"
  by (simp add: str_includes_sublist sublist_def spec_contains_def)

lemma in_class_alphabet: "in_class c \<longleftrightarrow> c \<in> spec_alphabet"
proof
  assume "in_class c"
  then show "c \<in> spec_alphabet"
    unfolding spec_alphabet_def in_class_def js_def
    by (simp add: word_le_nat_alt word_unat_eq_iff) arith
next
  assume "c \<in> spec_alphabet"
  then show "in_class c"
    unfolding spec_alphabet_def in_class_def js_def
    by (simp, elim disjE; simp)
qed

lemma regex_alphabet: "validFilenameRegex_test s \<longleftrightarrow> s \<noteq> [] \<and> set s \<subseteq> spec_alphabet"
  by (auto simp: validFilenameRegex_test_def list_all_iff in_class_alphabet)

lemma isValidFilename_eq: "isValidFilename s \<longleftrightarrow> spec_isValid s"
  unfolding isValidFilename_def spec_isValid_def
  by (auto simp: regex_alphabet str_includes_iff startsWith_iff)

text \<open>
  Claim C2. The validator accepts a string exactly when it is non-empty, at most 255
  code units long, made of the characters A-Z, a-z, 0-9, \<open>-\<close>, \<open>_\<close>, \<open>.\<close> only, without
  the substring \<open>..\<close>, without a leading \<open>.\<close>, without \<open>/\<close> and without a backslash;
  in particular it rejects the empty string, a string of more than 255 code units, and
  every string with \<open>/\<close>, a backslash, \<open>..\<close> or a leading \<open>.\<close>. It is a function of
  the string alone, defined on every string.
\<close>

theorem isValidFilename_spec:
  "(isValidFilename s \<longleftrightarrow> spec_isValid s) \<and>
   (s = [] \<or> 255 < length s \<or> spec_contains s (js ''/'') \<or> spec_contains s (js [CHR 0x5C]) \<or>
    spec_contains s (js ''..'') \<or> (\<exists>v. s = js ''.'' @ v) \<longrightarrow> \<not> isValidFilename s)"
proof (intro conjI impI)
  show "isValidFilename s \<longleftrightarrow> spec_isValid s" by (rule isValidFilename_eq)
next
  assume "s = [] \<or> 255 < length s \<or> spec_contains s (js ''/'') \<or> spec_contains s (js [CHR 0x5C]) \<or>
    spec_contains s (js ''..'') \<or> (\<exists>v. s = js ''.'' @ v)"
  then have "\<not> spec_isValid s" by (auto simp: spec_isValid_def)
  then show "\<not> isValidFilename s" by (simp add: isValidFilename_eq)
qed

theorem isValidFilename_spec_witness:
  "spec_isValid (js ''report.txt'') \<and>
   spec_contains (js ''../etc/passwd'') (js ''/'') \<and> \<not> isValidFilename (js ''../etc/passwd'')"
proof -
  have "isValidFilename (js ''report.txt'')"
    by (simp add: isValidFilename_def validFilenameRegex_test_def in_class_def js_def)
  then have a: "spec_isValid (js ''report.txt'')"
    using isValidFilename_spec[of "js ''report.txt''"] by blast
  have "js ''../etc/passwd'' = js ''..'' @ js ''/'' @ js ''etc/passwd''" by (simp add: js_def)
  then have b: "spec_contains (js ''../etc/passwd'') (js ''/'')"
    unfolding spec_contains_def by blast
  then have "\<not> isValidFilename (js ''../etc/passwd'')"
    using isValidFilename_spec[of "js ''../etc/passwd''"] by blast
  with a b show ?thesis by blast
qed

section \<open>UTF-8 decoding inverts UTF-8 encoding\<close>

lemma mod_plus: "l < k \<Longrightarrow> (k * q + l) mod k = (l::nat)"
  by simp
lemma mod_lead2: "h < 32 \<Longrightarrow> (192 + h) mod 32 = (h::nat)"
  using mod_plus[of h 32 6] by simp
lemma mod_lead3: "h < 16 \<Longrightarrow> (224 + h) mod 16 = (h::nat)"
  using mod_plus[of h 16 14] by simp
lemma mod_lead4: "h < 8 \<Longrightarrow> (240 + h) mod 8 = (h::nat)"
  using mod_plus[of h 8 30] by simp
lemma mod_cont: "l < 64 \<Longrightarrow> (128 + l) mod 64 = (l::nat)"
  using mod_plus[of l 64 2] by simp

lemma dec1: "cp < 0x80 \<Longrightarrow> fold utf8_step ([cp] @ bs) (decoder_init, out) = fold utf8_step bs (decoder_init, out @ [cp])"
  by (simp add: utf8_step_def lead_byte_def decoder_init_def)

lemma dec2:
  assumes "2 \<le> h" "h < 32" "l < 64"
  shows "fold utf8_step ([0xC0 + h, 0x80 + l] @ bs) (decoder_init, out) = fold utf8_step bs (decoder_init, out @ [h * 64 + l])"
  using assms by (simp add: utf8_step_def lead_byte_def decoder_init_def Let_def mod_lead2 mod_cont)

lemma dec3:
  assumes "h < 16" "m < 64" "l < 64" "h = 0 \<Longrightarrow> 32 \<le> m" "h = 13 \<Longrightarrow> m < 32"
  shows "fold utf8_step ([0xE0 + h, 0x80 + m, 0x80 + l] @ bs) (decoder_init, out) = fold utf8_step bs (decoder_init, out @ [(h * 64 + m) * 64 + l])"
proof -
  have "h = 0 \<and> 32 \<le> m \<or> h = 13 \<and> m < 32 \<or> h \<noteq> 0 \<and> h \<noteq> 13" using assms by blast
  then show ?thesis using assms(1-3)
    by (elim disjE conjE) (simp_all add: utf8_step_def lead_byte_def decoder_init_def Let_def mod_lead3 mod_cont)
qed

lemma dec4:
  assumes "h < 5" "a < 64" "m < 64" "l < 64" "h = 0 \<Longrightarrow> 16 \<le> a" "h = 4 \<Longrightarrow> a < 16"
  shows "fold utf8_step ([0xF0 + h, 0x80 + a, 0x80 + m, 0x80 + l] @ bs) (decoder_init, out) = fold utf8_step bs (decoder_init, out @ [((h * 64 + a) * 64 + m) * 64 + l])"
proof -
  have "h = 0 \<and> 16 \<le> a \<or> h = 4 \<and> a < 16 \<or> h \<noteq> 0 \<and> h \<noteq> 4" using assms by blast
  then show ?thesis using assms(1-4)
    by (elim disjE conjE) (simp_all add: utf8_step_def lead_byte_def decoder_init_def Let_def mod_lead4 mod_cont)
qed

lemma enc2:
  assumes "0x80 \<le> cp" "cp < 0x800"
  shows "fold utf8_step (utf8_bytes_of cp @ bs) (decoder_init, out) = fold utf8_step bs (decoder_init, out @ [cp])"
proof -
  define l where "l = cp mod 64"
  define h where "h = cp div 64"
  have cp: "cp = h * 64 + l" and l: "l < 64" by (simp_all add: l_def h_def)
  have h: "2 \<le> h" "h < 32" using assms cp l by linarith+
  have "utf8_bytes_of cp = [0xC0 + h, 0x80 + l]"
    using assms by (simp add: utf8_bytes_of_def l_def h_def)
  then show ?thesis using dec2[OF h l] cp by simp
qed

lemma enc3:
  assumes "0x800 \<le> cp" "cp < 0x10000" "cp < 0xD800 \<or> 0xE000 \<le> cp"
  shows "fold utf8_step (utf8_bytes_of cp @ bs) (decoder_init, out) = fold utf8_step bs (decoder_init, out @ [cp])"
proof -
  define l where "l = cp mod 64"
  define q where "q = cp div 64"
  define m where "m = q mod 64"
  define h where "h = q div 64"
  have cp: "cp = q * 64 + l" and l: "l < 64" by (simp_all add: l_def q_def)
  have q: "q = h * 64 + m" and m: "m < 64" by (simp_all add: m_def h_def)
  have h4096: "cp div 0x1000 = h" by (simp add: h_def q_def div_mult2_eq)
  have h: "h < 16" using assms cp q l m by linarith
  have h0: "h = 0 \<Longrightarrow> 32 \<le> m" using assms cp q l m by linarith
  have h13: "h = 13 \<Longrightarrow> m < 32" using assms cp q l m by linarith
  have "utf8_bytes_of cp = [0xE0 + h, 0x80 + m, 0x80 + l]"
    using assms h4096 by (simp add: utf8_bytes_of_def l_def q_def m_def)
  then show ?thesis using dec3[OF h m l h0 h13] cp q by simp
qed

lemma enc4:
  assumes "0x10000 \<le> cp" "cp \<le> 0x10FFFF"
  shows "fold utf8_step (utf8_bytes_of cp @ bs) (decoder_init, out) = fold utf8_step bs (decoder_init, out @ [cp])"
proof -
  define l where "l = cp mod 64"
  define q where "q = cp div 64"
  define m where "m = q mod 64"
  define r where "r = q div 64"
  define a where "a = r mod 64"
  define h where "h = r div 64"
  have cp: "cp = q * 64 + l" and l: "l < 64" by (simp_all add: l_def q_def)
  have q: "q = r * 64 + m" and m: "m < 64" by (simp_all add: m_def r_def)
  have r: "r = h * 64 + a" and a: "a < 64" by (simp_all add: a_def h_def)
  have r4096: "cp div 0x1000 = r" by (simp add: r_def q_def div_mult2_eq)
  have h262144: "cp div 0x40000 = h" by (simp add: h_def r_def q_def div_mult2_eq)
  have h: "h < 5" using assms cp q r l m a by linarith
  have h0: "h = 0 \<Longrightarrow> 16 \<le> a" using assms cp q r l m a by linarith
  have h4: "h = 4 \<Longrightarrow> a < 16" using assms cp q r l m a by linarith
  have "utf8_bytes_of cp = [0xF0 + h, 0x80 + a, 0x80 + m, 0x80 + l]"
    using assms r4096 h262144 by (simp add: utf8_bytes_of_def l_def q_def m_def a_def)
  then show ?thesis using dec4[OF h a m l h0 h4] cp q r by simp
qed

lemma enc_scalar:
  assumes "scalar cp"
  shows "fold utf8_step (utf8_bytes_of cp @ bs) (decoder_init, out) = fold utf8_step bs (decoder_init, out @ [cp])"
proof -
  consider "cp < 0x80" | "0x80 \<le> cp" "cp < 0x800" | "0x800 \<le> cp" "cp < 0x10000" | "0x10000 \<le> cp"
    by linarith
  then show ?thesis
  proof cases
    case 1 then show ?thesis using dec1[of cp bs out] by (simp add: utf8_bytes_of_def)
  next
    case 2 then show ?thesis by (rule enc2)
  next
    case 3 then show ?thesis using assms by (intro enc3) (auto simp: scalar_def)
  next
    case 4 then show ?thesis using assms by (intro enc4) (auto simp: scalar_def)
  qed
qed

lemma decode_concat:
  "list_all scalar cps \<Longrightarrow>
   fold utf8_step (concat (map utf8_bytes_of cps)) (decoder_init, out) = (decoder_init, out @ cps)"
proof (induction cps arbitrary: out)
  case Nil then show ?case by simp
next
  case (Cons cp cps)
  then show ?case using enc_scalar[of cp "concat (map utf8_bytes_of cps)" out] by simp
qed

lemma utf8_code_points_encode:
  "list_all scalar cps \<Longrightarrow> utf8_code_points (concat (map utf8_bytes_of cps)) = cps"
proof -
  assume "list_all scalar cps"
  then have "fold utf8_step (concat (map utf8_bytes_of cps)) (decoder_init, []) = (decoder_init, cps)"
    using decode_concat[of cps "[]"] by simp
  then show ?thesis
    by (simp add: utf8_code_points_def utf8_finish_def) (simp add: decoder_init_def)
qed


lemma unat_byte: "n < 256 \<Longrightarrow> unat (of_nat n :: 8 word) = n"
  by (simp add: unat_of_nat)

lemma utf8_bytes_of_bound: "cp \<le> 0x10FFFF \<Longrightarrow> b \<in> set (utf8_bytes_of cp) \<Longrightarrow> b < 256"
  by (auto simp: utf8_bytes_of_def split: if_splits) 

lemma scalar_le: "scalar cp \<Longrightarrow> cp \<le> 0x10FFFF"
  by (auto simp: scalar_def)

lemma bytes_of_roundtrip:
  assumes "scalar cp"
  shows "map (\<lambda>b. unat (of_nat b :: 8 word)) (utf8_bytes_of cp) = utf8_bytes_of cp"
proof (rule map_idI)
  fix b assume "b \<in> set (utf8_bytes_of cp)"
  then have "b < 256" using utf8_bytes_of_bound[OF scalar_le[OF assms]] by blast
  then show "unat (of_nat b :: 8 word) = b" by (rule unat_byte)
qed

lemma map_unat_bytes:
  "list_all scalar cps \<Longrightarrow>
   map unat (map of_nat (concat (map utf8_bytes_of cps)) :: bytes) = concat (map utf8_bytes_of cps)"
  by (induction cps) (simp_all add: bytes_of_roundtrip o_def)

lemma high_nat: "is_high_surrogate c \<longleftrightarrow> 0xD800 \<le> unat c \<and> unat c \<le> 0xDBFF"
  by (simp add: is_high_surrogate_def word_le_nat_alt)

lemma low_nat: "is_low_surrogate c \<longleftrightarrow> 0xDC00 \<le> unat c \<and> unat c \<le> 0xDFFF"
  by (simp add: is_low_surrogate_def word_le_nat_alt)

lemma unat_unit_bound: "unat (c :: jschar) < 0x10000"
  using unsigned_less[of c] by simp

lemma scalar_lone_unit: "scalar (lone_unit c)"
  using unat_unit_bound[of c] by (auto simp: lone_unit_def scalar_def high_nat low_nat)

lemma scalar_pair:
  "is_high_surrogate c \<Longrightarrow> is_low_surrogate d \<Longrightarrow>
   scalar (0x10000 + (unat c - 0xD800) * 0x400 + (unat d - 0xDC00))"
  by (auto simp: scalar_def high_nat low_nat)

lemma scalar_code_points: "list_all scalar (code_points s)"
  by (induction s rule: code_points.induct) (simp_all add: scalar_lone_unit scalar_pair)

lemma code_units_lone:
  "\<not> is_high_surrogate c \<Longrightarrow> \<not> is_low_surrogate c \<Longrightarrow> code_units_of (lone_unit c) = [c]"
  using unat_unit_bound[of c] by (simp add: lone_unit_def code_units_of_def)

lemma code_units_pair:
  assumes "is_high_surrogate c" "is_low_surrogate d"
  shows "code_units_of (0x10000 + (unat c - 0xD800) * 0x400 + (unat d - 0xDC00)) = [c, d]"
proof -
  define x where "x = unat c - 0xD800"
  define y where "y = unat d - 0xDC00"
  have x: "unat c = 0xD800 + x" "x < 0x400" using assms(1) by (auto simp: x_def high_nat)
  have y: "unat d = 0xDC00 + y" "y < 0x400" using assms(2) by (auto simp: y_def low_nat)
  have "(x * 0x400 + y) div 0x400 = x" "(x * 0x400 + y) mod 0x400 = y" using y(2) by simp_all
  then have "code_units_of (0x10000 + x * 0x400 + y) = [of_nat (0xD800 + x), of_nat (0xDC00 + y)]"
    by (simp add: code_units_of_def)
  also have "\<dots> = [of_nat (unat c), of_nat (unat d)]" using x(1) y(1) by simp
  finally show ?thesis by (simp add: x_def y_def)
qed

lemma wellFormed_units: "isWellFormed s \<Longrightarrow> concat (map code_units_of (code_points s)) = s"
proof (induction s rule: code_points.induct)
  case 1 then show ?case by simp
next
  case (2 c) then show ?case by (simp add: code_units_lone)
next
  case (3 c d r)
  show ?case
  proof (cases "is_high_surrogate c")
    case True
    with 3 show ?thesis by (simp add: code_units_pair)
  next
    case False
    with 3 show ?thesis by (simp add: code_units_lone)
  qed
qed

lemma utf8_decode_encode: "utf8_decode (utf8_encode s) = concat (map code_units_of (code_points s))"
  by (simp only: utf8_decode_def utf8_encode_def map_unat_bytes[OF scalar_code_points]
        utf8_code_points_encode[OF scalar_code_points])

lemma utf8_roundtrip: "isWellFormed s \<Longrightarrow> utf8_decode (utf8_encode s) = s"
  by (simp add: utf8_decode_encode wellFormed_units)

section \<open>The operations of FileManager\<close>

lemma createFile_fresh:
  assumes "isValidFilename name" "map_of fs name = None"
  shows "createFile baseDir fs now name content =
           (Inr \<lparr>c_filename = name, c_path = path_join baseDir name,
                 c_size = length content, c_created = now\<rparr>,
            AList.update name (RegularFile (utf8_encode content) now now) fs,
            [Access (path_join baseDir name), WriteFile (path_join baseDir name)])"
  using assms by (simp add: createFile_def fs_access_def fs_writeFile_def Let_def)

lemma createFile_existing:
  assumes "isValidFilename name" "map_of fs name = Some nd"
  shows "createFile baseDir fs now name content =
           (Inl AlreadyExists, fs, [Access (path_join baseDir name)])"
  using assms by (simp add: createFile_def fs_access_def Let_def)

lemma readFile_regular:
  assumes "isValidFilename name" "map_of fs name = Some (RegularFile data born modified)"
  shows "readFile baseDir fs fs name =
           (Inr \<lparr>r_filename = name, r_content = utf8_decode data, r_size = length data,
                 r_created = born, r_modified = modified\<rparr>,
            [ReadFile (path_join baseDir name), Stat (path_join baseDir name)])"
  using assms by (simp add: readFile_def fs_readFile_def fs_stat_def Let_def)

lemma readFile_missing:
  assumes "isValidFilename name" "map_of fs name = None"
  shows "readFile baseDir fs fs' name = (Inl NotFound, [ReadFile (path_join baseDir name)])"
  using assms by (simp add: readFile_def fs_readFile_def Let_def)

lemma deleteFile_missing:
  assumes "isValidFilename name" "map_of fs name = None"
  shows "deleteFile baseDir fs now name = (Inl NotFound, fs, [Access (path_join baseDir name)])"
  using assms by (simp add: deleteFile_def fs_access_def Let_def)

lemma deleteFile_regular:
  assumes "isValidFilename name" "map_of fs name = Some (RegularFile data born modified)"
  shows "deleteFile baseDir fs now name =
           (Inr \<lparr>d_filename = name, d_deleted = True, d_timestamp = now\<rparr>,
            AList.delete name fs,
            [Access (path_join baseDir name), Unlink (path_join baseDir name)])"
  using assms by (simp add: deleteFile_def fs_access_def fs_unlink_def Let_def)

lemma map_of_update_same: "map_of (AList.update k v al) k = Some v"
  by (simp add: update_conv')

lemma map_of_delete_same: "map_of (AList.delete k al) k = None"
  by (simp add: delete_conv')

text \<open>
  Claim C3, amended. For a valid filename with no entry in the directory and a content
  that is a well-formed string (no unpaired surrogate), \<open>createFile\<close> succeeds, and
  \<open>readFile\<close> on the state it leaves returns the content unchanged, with \<open>size\<close> the
  number of bytes of the UTF-8 encoding of the content.
\<close>

theorem create_read_roundtrip:
  assumes "isValidFilename name" "map_of fs name = None" "isWellFormed content"
  shows "fst (createFile baseDir fs now name content) =
           Inr \<lparr>c_filename = name, c_path = path_join baseDir name,
                c_size = length content, c_created = now\<rparr> \<and>
         fst (readFile baseDir (fst (snd (createFile baseDir fs now name content)))
                (fst (snd (createFile baseDir fs now name content))) name) =
           Inr \<lparr>r_filename = name, r_content = content,
                r_size = length (utf8_encode content), r_created = now, r_modified = now\<rparr>"
  using assms
  by (simp add: createFile_fresh readFile_regular[OF _ map_of_update_same] utf8_roundtrip)


lemmas eval_defs =
  createFile_def readFile_def deleteFile_def fs_access_def fs_writeFile_def fs_readFile_def
  fs_stat_def fs_unlink_def path_join_def Let_def
  isValidFilename_def validFilenameRegex_test_def in_class_def js_def
  utf8_encode_def utf8_decode_def utf8_bytes_of_def lone_unit_def is_high_surrogate_def
  is_low_surrogate_def utf8_code_points_def utf8_step_def lead_byte_def decoder_init_def
  utf8_finish_def code_units_of_def

theorem create_read_roundtrip_witness:
  "isValidFilename (js ''report.txt'') \<and> map_of ([] :: directory) (js ''report.txt'') = None \<and>
   isWellFormed (js ''hello'') \<and>
   fst (readFile (js ''/srv/files'')
         (fst (snd (createFile (js ''/srv/files'') [] 7 (js ''report.txt'') (js ''hello''))))
         (fst (snd (createFile (js ''/srv/files'') [] 7 (js ''report.txt'') (js ''hello''))))
         (js ''report.txt'')) =
     Inr \<lparr>r_filename = js ''report.txt'', r_content = js ''hello'', r_size = 5,
          r_created = 7, r_modified = 7\<rparr>"
proof -
  have v: "isValidFilename (js ''report.txt'')"
    by (simp add: isValidFilename_def validFilenameRegex_test_def in_class_def js_def)
  have m: "map_of ([] :: directory) (js ''report.txt'') = None" by simp
  have w: "isWellFormed (js ''hello'')"
    by (simp add: js_def is_high_surrogate_def is_low_surrogate_def)
  have l: "length (utf8_encode (js ''hello'')) = 5"
    by (simp add: js_def utf8_encode_def utf8_bytes_of_def lone_unit_def
          is_high_surrogate_def is_low_surrogate_def)
  show ?thesis
    using create_read_roundtrip[OF v m w, of "js ''/srv/files''" 7] v m w l by simp
qed

text \<open>
  Claim C3 as stated fails for a content with an unpaired surrogate: the file holds the
  three bytes of U+FFFD, and \<open>readFile\<close> returns U+FFFD, not the content.
\<close>

theorem create_read_lone_surrogate:
  "isValidFilename (js ''a.txt'') \<and> map_of ([] :: directory) (js ''a.txt'') = None \<and>
   fst (createFile (js ''/srv/files'') [] 7 (js ''a.txt'') [0xD800]) =
     Inr \<lparr>c_filename = js ''a.txt'', c_path = js ''/srv/files/a.txt'', c_size = 1, c_created = 7\<rparr> \<and>
   fst (readFile (js ''/srv/files'')
         (fst (snd (createFile (js ''/srv/files'') [] 7 (js ''a.txt'') [0xD800])))
         (fst (snd (createFile (js ''/srv/files'') [] 7 (js ''a.txt'') [0xD800])))
         (js ''a.txt'')) =
     Inr \<lparr>r_filename = js ''a.txt'', r_content = [0xFFFD], r_size = 3,
          r_created = 7, r_modified = 7\<rparr> \<and>
   [0xFFFD] \<noteq> [0xD800 :: jschar]"
  by (simp add: eval_defs)

text \<open>
  Claim C4. \<open>createFile\<close> reports \<open>content.length\<close>, the number of UTF-16 code units.
  For the one-character content U+00E9 it reports size 1, while the file it writes holds
  two bytes, which is what \<open>readFile\<close> reports for the same file.
\<close>

theorem create_size_counts_code_units:
  "fst (createFile (js ''/srv/files'') [] 7 (js ''a.txt'') [0xE9]) =
     Inr \<lparr>c_filename = js ''a.txt'', c_path = js ''/srv/files/a.txt'', c_size = 1, c_created = 7\<rparr> \<and>
   utf8_encode [0xE9] = [0xC3, 0xA9] \<and>
   fst (readFile (js ''/srv/files'')
         (fst (snd (createFile (js ''/srv/files'') [] 7 (js ''a.txt'') [0xE9])))
         (fst (snd (createFile (js ''/srv/files'') [] 7 (js ''a.txt'') [0xE9])))
         (js ''a.txt'')) =
     Inr \<lparr>r_filename = js ''a.txt'', r_content = [0xE9], r_size = 2,
          r_created = 7, r_modified = 7\<rparr>"
  by (simp add: eval_defs)


lemma create_repeated_existing:
  assumes "isValidFilename name" "map_of fs name = Some nd"
  shows "create_repeated baseDir fs name attempts = (replicate (length attempts) (Inl AlreadyExists), fs)"
  using assms by (induction attempts) (auto simp: createFile_existing Let_def)

lemma createFile_success_fresh:
  assumes "isValidFilename name" "fst (createFile baseDir fs now name content) = Inr result"
  shows "map_of fs name = None"
proof (cases "map_of fs name")
  case None then show ?thesis .
next
  case (Some nd)
  with assms show ?thesis by (simp add: createFile_existing)
qed

text \<open>
  Claim C5. For a valid filename: where an entry of that name exists, \<open>createFile\<close>
  fails with "File already exists" after the probe alone and leaves the directory as it
  was, however many times it is called; where no entry exists, \<open>readFile\<close> and
  \<open>deleteFile\<close> fail with "File not found"; and after a successful \<open>createFile\<close>,
  \<open>deleteFile\<close> succeeds and a second \<open>deleteFile\<close> fails with "File not found".
\<close>

theorem existence_checks:
  assumes "isValidFilename name"
  shows "(map_of fs name \<noteq> None \<longrightarrow>
            createFile baseDir fs now name content =
              (Inl AlreadyExists, fs, [Access (path_join baseDir name)]) \<and>
            create_repeated baseDir fs name attempts =
              (replicate (length attempts) (Inl AlreadyExists), fs)) \<and>
         (map_of fs name = None \<longrightarrow>
            fst (readFile baseDir fs fs' name) = Inl NotFound \<and>
            deleteFile baseDir fs now name =
              (Inl NotFound, fs, [Access (path_join baseDir name)])) \<and>
         (fst (createFile baseDir fs now name content) = Inr result \<longrightarrow>
            fst (deleteFile baseDir (fst (snd (createFile baseDir fs now name content))) later name) =
              Inr \<lparr>d_filename = name, d_deleted = True, d_timestamp = later\<rparr> \<and>
            fst (deleteFile baseDir
                  (fst (snd (deleteFile baseDir
                               (fst (snd (createFile baseDir fs now name content))) later name)))
                  latest name) = Inl NotFound)"
proof (intro conjI impI)
  assume "map_of fs name \<noteq> None"
  then obtain nd where nd: "map_of fs name = Some nd" by blast
  show "createFile baseDir fs now name content =
          (Inl AlreadyExists, fs, [Access (path_join baseDir name)])"
    by (rule createFile_existing[OF assms nd])
  show "create_repeated baseDir fs name attempts =
          (replicate (length attempts) (Inl AlreadyExists), fs)"
    by (rule create_repeated_existing[OF assms nd])
next
  assume none: "map_of fs name = None"
  show "fst (readFile baseDir fs fs' name) = Inl NotFound"
    by (simp add: readFile_missing[OF assms none])
  show "deleteFile baseDir fs now name = (Inl NotFound, fs, [Access (path_join baseDir name)])"
    by (rule deleteFile_missing[OF assms none])
next
  assume ok: "fst (createFile baseDir fs now name content) = Inr result"
  have none: "map_of fs name = None" by (rule createFile_success_fresh[OF assms ok])
  define fs1 where "fs1 = AList.update name (RegularFile (utf8_encode content) now now) fs"
  have c: "fst (snd (createFile baseDir fs now name content)) = fs1"
    by (simp add: createFile_fresh[OF assms none] fs1_def)
  have d: "deleteFile baseDir fs1 later name =
             (Inr \<lparr>d_filename = name, d_deleted = True, d_timestamp = later\<rparr>,
              AList.delete name fs1,
              [Access (path_join baseDir name), Unlink (path_join baseDir name)])"
    by (rule deleteFile_regular[OF assms]) (simp add: fs1_def map_of_update_same)
  show "fst (deleteFile baseDir (fst (snd (createFile baseDir fs now name content))) later name) =
          Inr \<lparr>d_filename = name, d_deleted = True, d_timestamp = later\<rparr>"
    by (simp add: c d)
  show "fst (deleteFile baseDir
              (fst (snd (deleteFile baseDir
                           (fst (snd (createFile baseDir fs now name content))) later name)))
              latest name) = Inl NotFound"
    by (simp add: c d deleteFile_missing[OF assms map_of_delete_same])
qed

theorem existence_checks_witness:
  "isValidFilename (js ''a.txt'') \<and>
   map_of [(js ''a.txt'', RegularFile [0x68, 0x69] 1 2)] (js ''a.txt'') \<noteq> None \<and>
   create_repeated (js ''/srv/files'') [(js ''a.txt'', RegularFile [0x68, 0x69] 1 2)] (js ''a.txt'')
       [(3, js ''x''), (4, js ''y'')] =
     (replicate (length [(3 :: nat, js ''x''), (4, js ''y'')]) (Inl AlreadyExists),
      [(js ''a.txt'', RegularFile [0x68, 0x69] 1 2)]) \<and>
   map_of ([] :: directory) (js ''a.txt'') = None \<and>
   fst (readFile (js ''/srv/files'') [] [] (js ''a.txt'')) = Inl NotFound \<and>
   deleteFile (js ''/srv/files'') [] 3 (js ''a.txt'') =
     (Inl NotFound, [], [Access (path_join (js ''/srv/files'') (js ''a.txt''))]) \<and>
   fst (createFile (js ''/srv/files'') [] 3 (js ''a.txt'') (js ''x'')) =
     Inr \<lparr>c_filename = js ''a.txt'', c_path = path_join (js ''/srv/files'') (js ''a.txt''),
          c_size = length (js ''x''), c_created = 3\<rparr> \<and>
   fst (deleteFile (js ''/srv/files'')
         (fst (snd (createFile (js ''/srv/files'') [] 3 (js ''a.txt'') (js ''x'')))) 4 (js ''a.txt'')) =
     Inr \<lparr>d_filename = js ''a.txt'', d_deleted = True, d_timestamp = 4\<rparr> \<and>
   fst (deleteFile (js ''/srv/files'')
         (fst (snd (deleteFile (js ''/srv/files'')
           (fst (snd (createFile (js ''/srv/files'') [] 3 (js ''a.txt'') (js ''x'')))) 4 (js ''a.txt''))))
         5 (js ''a.txt'')) = Inl NotFound"
proof -
  have v: "isValidFilename (js ''a.txt'')"
    by (simp add: isValidFilename_def validFilenameRegex_test_def in_class_def js_def)
  have some: "map_of [(js ''a.txt'', RegularFile [0x68, 0x69] 1 2)] (js ''a.txt'') \<noteq> None"
    by simp
  have none: "map_of ([] :: directory) (js ''a.txt'') = None" by simp
  have ok: "fst (createFile (js ''/srv/files'') [] 3 (js ''a.txt'') (js ''x'')) =
     Inr \<lparr>c_filename = js ''a.txt'', c_path = path_join (js ''/srv/files'') (js ''a.txt''),
          c_size = length (js ''x''), c_created = 3\<rparr>"
    by (simp add: createFile_fresh[OF v none])
  note a = existence_checks[OF v, of "[(js ''a.txt'', RegularFile [0x68, 0x69] 1 2)]"
              "js ''/srv/files''" 3 "js ''x''" "[(3, js ''x''), (4, js ''y'')]"]
  note b = existence_checks[OF v, of "[]" "js ''/srv/files''" 3 "js ''x''" _ "[]"
              "\<lparr>c_filename = js ''a.txt'', c_path = path_join (js ''/srv/files'') (js ''a.txt''),
                c_size = length (js ''x''), c_created = 3\<rparr>" 4 5]
  show ?thesis using v some none ok a b by blast
qed

text \<open>
  Claim C6. For a filename the validator rejects, \<open>createFile\<close>, \<open>readFile\<close> and
  \<open>deleteFile\<close> fail with "Invalid filename", make no file-system call and leave the
  directory as it was.
\<close>

theorem invalid_name_rejected:
  assumes "\<not> isValidFilename name"
  shows "createFile baseDir fs now name content = (Inl InvalidName, fs, []) \<and>
         readFile baseDir fs fs' name = (Inl InvalidName, []) \<and>
         deleteFile baseDir fs now name = (Inl InvalidName, fs, [])"
  using assms by (simp add: createFile_def readFile_def deleteFile_def Let_def)

theorem invalid_name_rejected_witness:
  "\<not> isValidFilename (js ''../etc/passwd'') \<and>
   createFile (js ''/srv/files'') [] 3 (js ''../etc/passwd'') (js ''x'') = (Inl InvalidName, [], []) \<and>
   readFile (js ''/srv/files'') [] [] (js ''../etc/passwd'') = (Inl InvalidName, []) \<and>
   deleteFile (js ''/srv/files'') [] 3 (js ''../etc/passwd'') = (Inl InvalidName, [], [])"
proof -
  have n: "\<not> isValidFilename (js ''../etc/passwd'')"
    by (simp add: isValidFilename_def validFilenameRegex_test_def in_class_def js_def)
  show ?thesis
    using n invalid_name_rejected[OF n, of "js ''/srv/files''" "[]" 3 "js ''x''" "[]"] by simp
qed

section \<open>The three styles compared\<close>

text \<open>
  \<open>FileManagerAsync\<close> is \<open>FileManager\<close>. The promise style and the callback style
  agree with it on \<open>createFile\<close> and \<open>deleteFile\<close>, and on \<open>readFile\<close> when the
  directory does not change between the read and the \<open>stat\<close>; the callback style then
  calls back exactly once.
\<close>

lemma Async_is_FileManager:
  "Async_createFile = createFile" "Async_readFile = readFile"
  "Async_deleteFile = deleteFile" "Async_listFiles = listFiles"
  by (simp_all add: fun_eq_iff Async_createFile_def createFile_def Async_readFile_def readFile_def
        Async_deleteFile_def deleteFile_def Async_listFiles_def listFiles_def)

lemma Promise_createFile_eq: "Promise_createFile baseDir fs now name content = createFile baseDir fs now name content"
  by (simp add: Promise_createFile_def createFile_def Let_def fs_access_def split: option.splits errno.splits sum.splits)

lemma Promise_deleteFile_eq: "Promise_deleteFile baseDir fs now name = deleteFile baseDir fs now name"
  by (simp add: Promise_deleteFile_def deleteFile_def Let_def)

lemma Promise_listFiles_eq: "Promise_listFiles baseDir fs fs' sched = listFiles baseDir fs fs' sched"
  by (simp add: Promise_listFiles_def listFiles_def)

lemma Callback_createFile_eq:
  "Callback_createFile baseDir fs now name content =
     ([fst (createFile baseDir fs now name content)], snd (createFile baseDir fs now name content))"
  by (simp add: Callback_createFile_def createFile_def Let_def fs_access_def split: option.splits errno.splits sum.splits)

lemma Callback_deleteFile_eq:
  "Callback_deleteFile baseDir fs now name =
     ([fst (deleteFile baseDir fs now name)], snd (deleteFile baseDir fs now name))"
  by (simp add: Callback_deleteFile_def deleteFile_def Let_def split: sum.splits)

lemma Promise_readFile_eq:
  "Promise_readFile baseDir fs fs name = readFile baseDir fs fs name"
  by (simp add: Promise_readFile_def readFile_def Let_def fs_readFile_def fs_stat_def
        split: option.splits node.splits)

lemma Callback_readFile_eq:
  "Callback_readFile baseDir fs fs name =
     ([fst (readFile baseDir fs fs name)], snd (readFile baseDir fs fs name))"
  by (simp add: Callback_readFile_def readFile_def Let_def fs_readFile_def fs_stat_def
        split: option.splits node.splits)

lemma readFile_stat_race:
  assumes "isValidFilename name" "map_of fs name = Some (RegularFile data born modified)"
    "map_of fs' name = None"
  shows "fst (readFile baseDir fs fs' name) = Inl NotFound"
    and "fst (Async_readFile baseDir fs fs' name) = Inl NotFound"
    and "fst (Promise_readFile baseDir fs fs' name) = Inl (SystemError ENOENT)"
    and "fst (Callback_readFile baseDir fs fs' name) = [Inl (SystemError ENOENT)]"
  using assms
  by (simp_all add: Callback_readFile_def Promise_readFile_def Async_readFile_def readFile_def
        fs_readFile_def fs_stat_def Let_def)

lemma valid_a_txt: "isValidFilename (js ''a.txt'')"
  by (simp add: isValidFilename_def validFilenameRegex_test_def in_class_def js_def)

text \<open>
  Claim C7. A file that is there for \<open>fs.readFile\<close> and gone for \<open>fs.stat\<close>:
  \<open>FileManager\<close> and \<open>FileManagerAsync\<close> catch the ENOENT of \<open>stat\<close> and throw
  "File not found", as for a file that was never there; \<open>FileManagerCallback\<close> and
  \<open>FileManagerPromise\<close> pass the raw ENOENT error on, which the server answers with
  500 instead of 404.
\<close>

theorem read_stat_race:
  "fst (Callback_readFile (js ''/srv/files'') [(js ''a.txt'', RegularFile [0x68, 0x69] 1 2)] []
         (js ''a.txt'')) = [Inl (SystemError ENOENT)] \<and>
   fst (Promise_readFile (js ''/srv/files'') [(js ''a.txt'', RegularFile [0x68, 0x69] 1 2)] []
         (js ''a.txt'')) = Inl (SystemError ENOENT) \<and>
   fst (Async_readFile (js ''/srv/files'') [(js ''a.txt'', RegularFile [0x68, 0x69] 1 2)] []
         (js ''a.txt'')) = Inl NotFound \<and>
   fst (readFile (js ''/srv/files'') [(js ''a.txt'', RegularFile [0x68, 0x69] 1 2)] []
         (js ''a.txt'')) = Inl NotFound \<and>
   fst (Callback_readFile (js ''/srv/files'') [] [] (js ''a.txt'')) = [Inl NotFound] \<and>
   fst (Promise_readFile (js ''/srv/files'') [] [] (js ''a.txt'')) = Inl NotFound \<and>
   statusCode (handleError (SystemError ENOENT)) = 500 \<and>
   statusCode (handleError NotFound) = 404"
  using valid_a_txt
  by (simp add: Callback_readFile_def Promise_readFile_def Async_readFile_def readFile_def
        fs_readFile_def fs_stat_def Let_def handleError_def)

section \<open>Listing\<close>

lemma completion_order_set: "set (completion_order n sched) = {..<n}"
  by (auto simp: completion_order_def)

lemma completion_order_distinct: "distinct (completion_order n sched)"
  by (auto simp: completion_order_def)

lemma completion_order_length: "length (completion_order n sched) = n"
proof -
  have "length (completion_order n sched) = card (set (completion_order n sched))"
    by (simp add: distinct_card completion_order_distinct)
  then show ?thesis by (simp add: completion_order_set)
qed

lemma fs_stat_present:
  assumes "name \<in> fst ` set fs"
  shows "\<exists>st. fs_stat fs name = Inr st"
proof -
  from assms obtain nd where "map_of fs name = Some nd"
    by (cases "map_of fs name") (auto simp: map_of_eq_None_iff)
  then show ?thesis by (cases nd) (simp_all add: fs_stat_def)
qed

lemma stat_entry_present:
  assumes "name \<in> fst ` set fs"
  shows "\<exists>entry. stat_entry fs name = Inr entry"
  using fs_stat_present[OF assms] by (auto simp: stat_entry_def)

lemma rejections_all_fulfilled: "\<forall>r\<in>set rs. \<exists>v. r = Inr v \<Longrightarrow> rejections rs = []"
  by (induction rs) auto

lemma promise_all_fulfilled:
  assumes "\<forall>r\<in>set promises. \<exists>v. r = Inr v"
  shows "promise_all promises sched = Inr (fulfilled promises)"
proof -
  have "\<forall>r\<in>set (map (\<lambda>i. promises ! i) (completion_order (length promises) sched)). \<exists>v. r = Inr v"
    using assms by (auto simp: completion_order_set)
  then have "rejections (map (\<lambda>i. promises ! i) (completion_order (length promises) sched)) = []"
    by (rule rejections_all_fulfilled)
  then show ?thesis by (simp add: promise_all_def)
qed

lemma listFiles_snapshot:
  "listFiles baseDir fs fs sched =
     (Inr (fulfilled (map (stat_entry fs) (map fst fs))),
      Readdir baseDir # map (\<lambda>filename. Stat (path_join baseDir filename)) (map fst fs))"
proof -
  have "\<forall>r\<in>set (map (stat_entry fs) (map fst fs)). \<exists>v. r = Inr v"
    using stat_entry_present[of _ fs] by auto
  then show ?thesis
    by (simp add: listFiles_def fs_readdir_def promise_all_fulfilled)
qed

lemma listFiles_stable: "listFiles baseDir fs fs sched = listFiles baseDir fs fs sched'"
  by (simp add: listFiles_snapshot)

lemma fold_stat_callback:
  assumes "\<forall>i\<in>set order. \<exists>st. fs_stat fs' (files ! i) = Inr st"
    and "c + length order \<le> n"
  shows "fold (\<lambda>i. stat_callback n (files ! i) (fs_stat fs' (files ! i))) order
           \<lparr>completed = c, fileDetails = d, hasError = False, called = k\<rparr> =
         \<lparr>completed = c + length order,
          fileDetails = d @ fulfilled (map (\<lambda>i. stat_entry fs' (files ! i)) order),
          hasError = False,
          called = (if order \<noteq> [] \<and> c + length order = n
                    then k @ [Inr (d @ fulfilled (map (\<lambda>i. stat_entry fs' (files ! i)) order))]
                    else k)\<rparr>"
  using assms
proof (induction order arbitrary: c d k)
  case Nil
  then show ?case by simp
next
  case (Cons i order)
  from Cons.prems(1) obtain st where st: "fs_stat fs' (files ! i) = Inr st" by auto
  let ?e = "\<lparr>l_filename = files ! i, l_size = st_size st,
              l_created = birthtime st, l_modified = mtime st\<rparr>"
  have e: "stat_entry fs' (files ! i) = Inr ?e" by (simp add: stat_entry_def st)
  show ?case
  proof (cases "order = []")
    case True
    then show ?thesis using Cons.prems(2) by (simp add: stat_callback_def st e Let_def)
  next
    case False
    then have lt: "Suc c \<noteq> n" using Cons.prems(2) by (cases order) auto
    have step: "stat_callback n (files ! i) (fs_stat fs' (files ! i))
                  \<lparr>completed = c, fileDetails = d, hasError = False, called = k\<rparr> =
                \<lparr>completed = Suc c, fileDetails = d @ [?e], hasError = False, called = k\<rparr>"
      using lt by (simp add: stat_callback_def st Let_def)
    have ih: "fold (\<lambda>i. stat_callback n (files ! i) (fs_stat fs' (files ! i))) order
           \<lparr>completed = Suc c, fileDetails = d @ [?e], hasError = False, called = k\<rparr> =
         \<lparr>completed = Suc c + length order,
          fileDetails = (d @ [?e]) @ fulfilled (map (\<lambda>i. stat_entry fs' (files ! i)) order),
          hasError = False,
          called = (if order \<noteq> [] \<and> Suc c + length order = n
                    then k @ [Inr ((d @ [?e]) @ fulfilled (map (\<lambda>i. stat_entry fs' (files ! i)) order))]
                    else k)\<rparr>"
      using Cons.prems by (intro Cons.IH) auto
    show ?thesis using False by (simp add: step ih e)
  qed
qed

lemma Callback_listFiles_snapshot:
  assumes "fs \<noteq> []"
  shows "fst (Callback_listFiles baseDir fs fs sched) =
           [Inr (fulfilled (map (\<lambda>i. stat_entry fs (map fst fs ! i))
                              (completion_order (length fs) sched)))]"
proof -
  have a: "\<forall>i\<in>set (completion_order (length fs) sched). \<exists>st. fs_stat fs (map fst fs ! i) = Inr st"
    using fs_stat_present[of _ fs] by (auto simp: completion_order_set)
  have b: "0 + length (completion_order (length (map fst fs)) sched) \<le> length (map fst fs)"
    by (simp add: completion_order_length)
  have c: "completion_order (length fs) sched \<noteq> []"
    using assms completion_order_length[of "length fs" sched] by auto
  show ?thesis
    using assms c a
    by (simp add: Callback_listFiles_def fs_readdir_def fold_stat_callback[where n = "length fs" and c = 0]
          completion_order_length)
qed

text \<open>
  Claim C10. On a base directory with no entry, \<open>FileManagerCallback.listFiles\<close>
  calls \<open>readdir\<close> and then never calls its callback, neither with a result nor with an
  error: the completion check sits inside the \<open>stat\<close> callback, and no \<open>stat\<close> is
  started. The promise and async/await styles return the empty list.
\<close>

theorem empty_directory_never_calls_back:
  "Callback_listFiles baseDir [] fs' sched = ([], [Readdir baseDir]) \<and>
   Promise_listFiles baseDir [] fs' sched = (Inr [], [Readdir baseDir]) \<and>
   Async_listFiles baseDir [] fs' sched = (Inr [], [Readdir baseDir])"
  by (simp add: Callback_listFiles_def Promise_listFiles_def Async_listFiles_def fs_readdir_def
        promise_all_def completion_order_def)

text \<open>
  Claim C1. The three styles do not behave alike. On the empty base directory the
  callback style never answers, while the promise and async/await styles answer with
  the empty list. On a directory with two files whose second \<open>stat\<close> finishes first, the
  callback style lists the second file first, the other two styles the first. And when
  the file is gone between \<open>fs.readFile\<close> and \<open>fs.stat\<close>, the callback and promise styles
  fail with the raw ENOENT error, the async/await style with "File not found".
\<close>

theorem variants_differ_on_empty_directory:
  "fst (Callback_listFiles (js ''/srv/files'') [] [] []) = [] \<and>
   fst (Promise_listFiles (js ''/srv/files'') [] [] []) = Inr [] \<and>
   fst (Async_listFiles (js ''/srv/files'') [] [] []) = Inr [] \<and>
   fst (Callback_listFiles (js ''/srv/files'')
         [(js ''a.txt'', RegularFile [0x68, 0x69] 1 2), (js ''b.txt'', RegularFile [0x68] 3 4)]
         [(js ''a.txt'', RegularFile [0x68, 0x69] 1 2), (js ''b.txt'', RegularFile [0x68] 3 4)]
         [1, 0]) =
     [Inr [\<lparr>l_filename = js ''b.txt'', l_size = 1, l_created = 3, l_modified = 4\<rparr>,
           \<lparr>l_filename = js ''a.txt'', l_size = 2, l_created = 1, l_modified = 2\<rparr>]] \<and>
   fst (Promise_listFiles (js ''/srv/files'')
         [(js ''a.txt'', RegularFile [0x68, 0x69] 1 2), (js ''b.txt'', RegularFile [0x68] 3 4)]
         [(js ''a.txt'', RegularFile [0x68, 0x69] 1 2), (js ''b.txt'', RegularFile [0x68] 3 4)]
         [1, 0]) =
     Inr [\<lparr>l_filename = js ''a.txt'', l_size = 2, l_created = 1, l_modified = 2\<rparr>,
          \<lparr>l_filename = js ''b.txt'', l_size = 1, l_created = 3, l_modified = 4\<rparr>] \<and>
   fst (Async_listFiles (js ''/srv/files'')
         [(js ''a.txt'', RegularFile [0x68, 0x69] 1 2), (js ''b.txt'', RegularFile [0x68] 3 4)]
         [(js ''a.txt'', RegularFile [0x68, 0x69] 1 2), (js ''b.txt'', RegularFile [0x68] 3 4)]
         [1, 0]) =
     Inr [\<lparr>l_filename = js ''a.txt'', l_size = 2, l_created = 1, l_modified = 2\<rparr>,
          \<lparr>l_filename = js ''b.txt'', l_size = 1, l_created = 3, l_modified = 4\<rparr>] \<and>
   fst (Callback_readFile (js ''/srv/files'') [(js ''a.txt'', RegularFile [0x68, 0x69] 1 2)] []
         (js ''a.txt'')) = [Inl (SystemError ENOENT)] \<and>
   fst (Promise_readFile (js ''/srv/files'') [(js ''a.txt'', RegularFile [0x68, 0x69] 1 2)] []
         (js ''a.txt'')) = Inl (SystemError ENOENT) \<and>
   fst (Async_readFile (js ''/srv/files'') [(js ''a.txt'', RegularFile [0x68, 0x69] 1 2)] []
         (js ''a.txt'')) = Inl NotFound"
proof -
  have empty:
    "fst (Callback_listFiles (js ''/srv/files'') [] [] []) = []"
    "fst (Promise_listFiles (js ''/srv/files'') [] [] []) = Inr []"
    "fst (Async_listFiles (js ''/srv/files'') [] [] []) = Inr []"
    by (simp_all add: Callback_listFiles_def Promise_listFiles_def Async_listFiles_def
          fs_readdir_def promise_all_def completion_order_def)
  have two:
    "fst (Callback_listFiles (js ''/srv/files'')
         [(js ''a.txt'', RegularFile [0x68, 0x69] 1 2), (js ''b.txt'', RegularFile [0x68] 3 4)]
         [(js ''a.txt'', RegularFile [0x68, 0x69] 1 2), (js ''b.txt'', RegularFile [0x68] 3 4)]
         [1, 0]) =
     [Inr [\<lparr>l_filename = js ''b.txt'', l_size = 1, l_created = 3, l_modified = 4\<rparr>,
           \<lparr>l_filename = js ''a.txt'', l_size = 2, l_created = 1, l_modified = 2\<rparr>]]"
    "fst (Promise_listFiles (js ''/srv/files'')
         [(js ''a.txt'', RegularFile [0x68, 0x69] 1 2), (js ''b.txt'', RegularFile [0x68] 3 4)]
         [(js ''a.txt'', RegularFile [0x68, 0x69] 1 2), (js ''b.txt'', RegularFile [0x68] 3 4)]
         [1, 0]) =
     Inr [\<lparr>l_filename = js ''a.txt'', l_size = 2, l_created = 1, l_modified = 2\<rparr>,
          \<lparr>l_filename = js ''b.txt'', l_size = 1, l_created = 3, l_modified = 4\<rparr>]"
    "fst (Async_listFiles (js ''/srv/files'')
         [(js ''a.txt'', RegularFile [0x68, 0x69] 1 2), (js ''b.txt'', RegularFile [0x68] 3 4)]
         [(js ''a.txt'', RegularFile [0x68, 0x69] 1 2), (js ''b.txt'', RegularFile [0x68] 3 4)]
         [1, 0]) =
     Inr [\<lparr>l_filename = js ''a.txt'', l_size = 2, l_created = 1, l_modified = 2\<rparr>,
          \<lparr>l_filename = js ''b.txt'', l_size = 1, l_created = 3, l_modified = 4\<rparr>]"
    by (simp_all add: Callback_listFiles_def Promise_listFiles_def Async_listFiles_def
          fs_readdir_def promise_all_def completion_order_def stat_callback_def stat_entry_def
          fs_stat_def Let_def js_def)
  have race:
    "fst (Callback_readFile (js ''/srv/files'') [(js ''a.txt'', RegularFile [0x68, 0x69] 1 2)] []
         (js ''a.txt'')) = [Inl (SystemError ENOENT)]"
    "fst (Promise_readFile (js ''/srv/files'') [(js ''a.txt'', RegularFile [0x68, 0x69] 1 2)] []
         (js ''a.txt'')) = Inl (SystemError ENOENT)"
    "fst (Async_readFile (js ''/srv/files'') [(js ''a.txt'', RegularFile [0x68, 0x69] 1 2)] []
         (js ''a.txt'')) = Inl NotFound"
    using valid_a_txt
    by (simp_all add: Callback_readFile_def Promise_readFile_def Async_readFile_def
          fs_readFile_def fs_stat_def Let_def)
  from empty two race show ?thesis by blast
qed

text \<open>
  Claim C8. \<open>FileManagerCallback.listFiles\<close> pushes the entries in the order in which
  the \<open>stat\<close> calls finish: on one and the same directory with two files, two runs whose
  \<open>stat\<close> calls finish in different orders return the entries in different orders.
\<close>

theorem callback_list_order:
  "fst (Callback_listFiles (js ''/srv/files'')
         [(js ''a.txt'', RegularFile [0x68, 0x69] 1 2), (js ''b.txt'', RegularFile [0x68] 3 4)]
         [(js ''a.txt'', RegularFile [0x68, 0x69] 1 2), (js ''b.txt'', RegularFile [0x68] 3 4)]
         [0, 1]) =
     [Inr [\<lparr>l_filename = js ''a.txt'', l_size = 2, l_created = 1, l_modified = 2\<rparr>,
           \<lparr>l_filename = js ''b.txt'', l_size = 1, l_created = 3, l_modified = 4\<rparr>]] \<and>
   fst (Callback_listFiles (js ''/srv/files'')
         [(js ''a.txt'', RegularFile [0x68, 0x69] 1 2), (js ''b.txt'', RegularFile [0x68] 3 4)]
         [(js ''a.txt'', RegularFile [0x68, 0x69] 1 2), (js ''b.txt'', RegularFile [0x68] 3 4)]
         [1, 0]) =
     [Inr [\<lparr>l_filename = js ''b.txt'', l_size = 1, l_created = 3, l_modified = 4\<rparr>,
           \<lparr>l_filename = js ''a.txt'', l_size = 2, l_created = 1, l_modified = 2\<rparr>]]"
  by (simp add: Callback_listFiles_def fs_readdir_def completion_order_def stat_callback_def
        fs_stat_def Let_def js_def)

section \<open>The server\<close>

text \<open>
  Claim C9. A POST to \<open>/api/files\<close> whose body lacks the content, or lacks the
  filename (as the body \<open>{"filename":"a.txt"}\<close> does), is answered with the message
  "Filename and content are required" and status 500: \<open>handleError\<close> has no case for
  this message.
\<close>

theorem missing_content_status:
  "server baseDir fs now
     \<lparr>req_method = js ''POST'', req_path = js ''/api/files'',
      req_body = JsonObject filename None\<rparr> =
     (\<lparr>statusCode = 500, res_data = ErrorBody ''Filename and content are required'' 500\<rparr>, fs) \<and>
   server baseDir fs now
     \<lparr>req_method = js ''POST'', req_path = js ''/api/files'',
      req_body = JsonObject None content\<rparr> =
     (\<lparr>statusCode = 500, res_data = ErrorBody ''Filename and content are required'' 500\<rparr>, fs) \<and>
   server baseDir fs now
     \<lparr>req_method = js ''POST'', req_path = js ''/api/files'',
      req_body = JsonObject (Some (js ''a.txt'')) None\<rparr> =
     (\<lparr>statusCode = 500, res_data = ErrorBody ''Filename and content are required'' 500\<rparr>, fs)"
proof -
  have route: "startsWith (js ''/api/files'') (js ''/api/files'')" by (simp add: js_def)
  show ?thesis
    by (simp add: server_def handleError_def Let_def route split: option.splits)
qed

end
